theory Spec2Isabelle
  imports Main
begin

section \<open>Shared reactive state and configuration\<close>

text \<open>
  The module keeps three pieces of shared state (\<^verbatim>\<open>useState\<close> under the keys
  \<^verbatim>\<open>sanctum.csrfToken\<close>, \<^verbatim>\<open>sanctum.authenticated\<close>, \<^verbatim>\<open>sanctum.user\<close>). A JavaScript value
  that is \<^verbatim>\<open>undefined\<close> or \<^verbatim>\<open>null\<close> is \<open>None\<close>. Navigation is an effect of the
  hosting framework; the model records every call in the order it is made.
\<close>

datatype navigation =
    RouterPush "string option"    \<comment> \<open>\<^verbatim>\<open>useRouter().push(target)\<close>\<close>
  | NavigateTo "string option"    \<comment> \<open>\<^verbatim>\<open>navigateTo(target)\<close>\<close>

record 'u sanctum =
  csrfToken :: "string option"
  authenticated :: "bool option"
  user :: "'u option"
  navigations :: "navigation list"

definition initial_state :: "'u sanctum" where
  "initial_state = \<lparr>csrfToken = None, authenticated = None, user = None, navigations = []\<rparr>"

text \<open>\<^verbatim>\<open>useRuntimeConfig().public.sanctum\<close>: the redirect targets are optional.\<close>

record config =
  url :: string
  csrf_endpoint :: string
  check_endpoint :: string
  login_endpoint :: string
  login_redirectsTo :: "string option"
  logout_endpoint :: string
  logout_redirectsTo :: "string option"

section \<open>Collaborators outside the repository\<close>

text \<open>
  The execution side (\<^verbatim>\<open>process.server\<close>, \<^verbatim>\<open>process.client\<close>), the inbound request's
  \<^verbatim>\<open>cookie\<close> header (\<^verbatim>\<open>useRequestHeaders(["cookie"])\<close>) and the two functions of the
  library \<^verbatim>\<open>set-cookie-parser-es\<close> are supplied from outside. The library functions are
  parameters: every theorem below holds for any implementation of them.
\<close>

datatype side = Server | Client

record cookie =
  cookie_name :: string
  cookie_value :: string

record env =
  process :: side
  request_cookie :: "string option"
  splitCookiesString :: "string \<Rightarrow> string list"
  parse :: "string list \<Rightarrow> cookie list"

definition process_server :: "env \<Rightarrow> bool" where
  "process_server e = (process e = Server)"

definition process_client :: "env \<Rightarrow> bool" where
  "process_client e = (process e = Client)"

text \<open>
  A response as the hooks see it: its status and its \<^verbatim>\<open>set-cookie\<close> header
  (\<^verbatim>\<open>response.response.headers.get("set-cookie")\<close>, \<^verbatim>\<open>null\<close> when the header is missing).
\<close>

record response =
  status :: nat
  set_cookie :: "string option"

text \<open>
  What the HTTP client does with one request: it fails before any response arrives, it
  receives a response and rejects, or it receives a response and resolves with the parsed
  body. An exchange also says what \<^verbatim>\<open>useCookie("XSRF-TOKEN").value\<close> reads once the reply has
  arrived (on the client the browser's cookie jar, on the server the cookies of the
  inbound request).
\<close>

datatype 'b reply =
    NoResponse
  | Rejected response
  | Resolved response 'b

record 'b exchange =
  reply :: "'b reply"
  useCookie_XSRF :: "string option"

datatype fetch_error = FetchError

section \<open>JavaScript operators on optional strings\<close>

text \<open>Truthiness: \<^verbatim>\<open>undefined\<close>, \<^verbatim>\<open>null\<close> and the empty string are falsy.\<close>

definition truthy :: "string option \<Rightarrow> bool" where
  "truthy v = (case v of None \<Rightarrow> False | Some t \<Rightarrow> t \<noteq> [])"

text \<open>\<^verbatim>\<open>a || b\<close>\<close>

definition js_or :: "string option \<Rightarrow> string option \<Rightarrow> string option" where
  "js_or a b = (if truthy a then a else b)"

text \<open>\<^verbatim>\<open>a ?? b\<close>\<close>

definition nullish :: "'a option \<Rightarrow> 'a option \<Rightarrow> 'a option" where
  "nullish a b = (case a of None \<Rightarrow> b | Some x \<Rightarrow> Some x)"

text \<open>\<^verbatim>\<open>s.endsWith(t)\<close>\<close>

definition endsWith :: "string \<Rightarrow> string \<Rightarrow> bool" where
  "endsWith s t = (length t \<le> length s \<and> drop (length s - length t) s = t)"

section \<open>The response hook\<close>

text \<open>
  \<^verbatim>\<open>cookies.find((cookie) => cookie.name === "XSRF-TOKEN")?.value\<close> over
  \<^verbatim>\<open>parse(splitCookiesString(header ?? ""))\<close>.
\<close>

definition xsrf_from_header :: "env \<Rightarrow> response \<Rightarrow> string option" where
  "xsrf_from_header e r =
     (let split = splitCookiesString e (case set_cookie r of None \<Rightarrow> [] | Some h \<Rightarrow> h);
          cookies = parse e split
      in map_option cookie_value (find (\<lambda>c. cookie_name c = ''XSRF-TOKEN'') cookies))"

text \<open>The \<^verbatim>\<open>onResponse\<close> hook of the Session Client's HTTP client (\<^verbatim>\<open>ofetch.create\<close>).\<close>

definition onResponse :: "env \<Rightarrow> string option \<Rightarrow> response \<Rightarrow> 'u sanctum \<Rightarrow> 'u sanctum" where
  "onResponse e jar r s =
     (let s1 = (if process_server e then s\<lparr>csrfToken := xsrf_from_header e r\<rparr> else s)
      in if process_client e then s1\<lparr>csrfToken := jar\<rparr> else s1)"

text \<open>The \<^verbatim>\<open>onResponse\<close> hook in the defaults of \<^verbatim>\<open>useSanctumFetch\<close>: the same text again.\<close>

definition fetch_onResponse :: "env \<Rightarrow> string option \<Rightarrow> response \<Rightarrow> 'u sanctum \<Rightarrow> 'u sanctum" where
  "fetch_onResponse e jar r s =
     (let s1 = (if process_server e then s\<lparr>csrfToken := xsrf_from_header e r\<rparr> else s)
      in if process_client e then s1\<lparr>csrfToken := jar\<rparr> else s1)"

section \<open>The Session Client (\<^verbatim>\<open>useSanctum\<close>)\<close>

text \<open>
  \<^verbatim>\<open>sanctumFetch\<close>: the hook runs on every response that arrives; the call resolves with the
  body or rejects. The replies are inputs of the model, so what a request carries (its
  endpoint, method, headers and body) decides nothing below and is not recorded.
\<close>

definition sanctumFetch ::
  "env \<Rightarrow> 'u exchange \<Rightarrow> 'u sanctum \<Rightarrow> 'u sanctum \<times> (fetch_error + 'u)" where
  "sanctumFetch e ex s =
     (case reply ex of
        NoResponse \<Rightarrow> (s, Inl FetchError)
      | Rejected r \<Rightarrow> (onResponse e (useCookie_XSRF ex) r s, Inl FetchError)
      | Resolved r b \<Rightarrow> (onResponse e (useCookie_XSRF ex) r s, Inr b))"

text \<open>
  \<^verbatim>\<open>refreshCsrfToken\<close>: no \<^verbatim>\<open>try\<close> around the request, so a rejection leaves the function
  at the \<^verbatim>\<open>await\<close>.
\<close>

definition refreshCsrfToken ::
  "env \<Rightarrow> 'u exchange \<Rightarrow> 'u sanctum \<Rightarrow> 'u sanctum \<times> (fetch_error + string option)" where
  "refreshCsrfToken e ex s =
     (case sanctumFetch e ex s of
        (s1, Inl err) \<Rightarrow> (s1, Inl err)
      | (s1, Inr _) \<Rightarrow>
          (let s2 = s1\<lparr>csrfToken := useCookie_XSRF ex\<rparr>
           in (s2, Inr (csrfToken s2))))"

text \<open>
  \<^verbatim>\<open>check\<close>: the request and both assignments are inside \<^verbatim>\<open>try\<close>; the \<^verbatim>\<open>catch\<close> logs the
  error and sets the flag; the function returns \<^verbatim>\<open>authenticated.value\<close>.
\<close>

definition check ::
  "env \<Rightarrow> 'u exchange \<Rightarrow> 'u sanctum \<Rightarrow> 'u sanctum \<times> (fetch_error + bool option)" where
  "check e ex s =
     (let s' = (case sanctumFetch e ex s of
                  (s1, Inr body) \<Rightarrow> s1\<lparr>user := Some body, authenticated := Some True\<rparr>
                | (s1, Inl err) \<Rightarrow> s1\<lparr>authenticated := Some False\<rparr>)
      in (s', Inr (authenticated s')))"

definition push :: "string option \<Rightarrow> 'u sanctum \<Rightarrow> 'u sanctum" where
  "push target s = s\<lparr>navigations := navigations s @ [RouterPush target]\<rparr>"

definition navigateTo :: "string option \<Rightarrow> 'u sanctum \<Rightarrow> 'u sanctum" where
  "navigateTo target s = s\<lparr>navigations := navigations s @ [NavigateTo target]\<rparr>"

text \<open>
  \<^verbatim>\<open>login(data, redirectTo?)\<close>: the CSRF refresh is awaited before the \<^verbatim>\<open>try\<close> block; the
  POST, the call of \<^verbatim>\<open>check\<close> and the redirect are inside it. The credentials \<open>data\<close> are
  only sent as the body of the POST. The three exchanges are those of the CSRF GET, the
  login POST and the GET of \<^verbatim>\<open>check\<close>.
\<close>

definition login ::
  "env \<Rightarrow> config \<Rightarrow> 'u exchange \<Rightarrow> 'u exchange \<Rightarrow> 'u exchange \<Rightarrow>
   'd \<Rightarrow> string option \<Rightarrow> 'u sanctum \<Rightarrow> 'u sanctum \<times> (fetch_error + bool)" where
  "login e cfg ex_csrf ex_login ex_check data redirectTo s =
     (case refreshCsrfToken e ex_csrf s of
        (s1, Inl err) \<Rightarrow> (s1, Inl err)
      | (s1, Inr _) \<Rightarrow>
          (case sanctumFetch e ex_login s1 of
             (s2, Inl _) \<Rightarrow> (s2\<lparr>authenticated := Some False\<rparr>, Inr False)
           | (s2, Inr _) \<Rightarrow>
               (case check e ex_check s2 of
                  (s3, Inl _) \<Rightarrow> (s3\<lparr>authenticated := Some False\<rparr>, Inr False)
                | (s3, Inr _) \<Rightarrow>
                    (let s4 = (if truthy (js_or redirectTo (login_redirectsTo cfg))
                               then push (nullish redirectTo (login_redirectsTo cfg)) s3
                               else s3)
                     in (s4, Inr True)))))"

text \<open>
  \<^verbatim>\<open>logout(redirectTo?)\<close>: everything is inside \<^verbatim>\<open>try\<close>; the \<^verbatim>\<open>catch\<close> returns
  \<^verbatim>\<open>false\<close>. The condition reads \<^verbatim>\<open>redirectTo ?? config.logout.redirectsTo\<close>, the call is
  \<^verbatim>\<open>push(config.logout.redirectsTo)\<close>.
\<close>

definition logout ::
  "env \<Rightarrow> config \<Rightarrow> 'u exchange \<Rightarrow> string option \<Rightarrow> 'u sanctum \<Rightarrow>
   'u sanctum \<times> (fetch_error + bool)" where
  "logout e cfg ex redirectTo s =
     (case sanctumFetch e ex s of
        (s1, Inl _) \<Rightarrow> (s1, Inr False)
      | (s1, Inr _) \<Rightarrow>
          (let s2 = s1\<lparr>authenticated := Some False\<rparr>;
               s3 = (if truthy (nullish redirectTo (logout_redirectsTo cfg))
                     then push (logout_redirectsTo cfg) s2
                     else s2)
           in (s3, Inr True)))"

section \<open>The Request Wrapper (\<^verbatim>\<open>useSanctumFetch\<close>)\<close>

text \<open>
  The \<^verbatim>\<open>onResponseError\<close> hook. \<open>request\<close> is \<^verbatim>\<open>request.toString()\<close>, the string the
  request was made with.
\<close>

definition onResponseError :: "config \<Rightarrow> string \<Rightarrow> response \<Rightarrow> 'u sanctum \<Rightarrow> 'u sanctum" where
  "onResponseError cfg request r s =
     (if status r = 401 then
        (if endsWith request (check_endpoint cfg) then s
         else navigateTo (logout_redirectsTo cfg) (s\<lparr>authenticated := Some False, user := None\<rparr>))
      else s)"




text \<open>
  A parser for headers that carry a single cookie, used to run the hooks on concrete
  responses: nothing is split, and the name and the value of the cookie stand around the
  first \<open>=\<close> of the part before the first \<open>;\<close>.
\<close>

definition single_split :: "string \<Rightarrow> string list" where
  "single_split h = (if h = [] then [] else [h])"

definition single_pair :: "string \<Rightarrow> cookie" where
  "single_pair h =
     (let p = takeWhile (\<lambda>c. c \<noteq> CHR '';'') h
      in \<lparr>cookie_name = takeWhile (\<lambda>c. c \<noteq> CHR ''='') p,
          cookie_value = drop 1 (dropWhile (\<lambda>c. c \<noteq> CHR ''='') p)\<rparr>)"

definition single_cookie_env :: "side \<Rightarrow> env" where
  "single_cookie_env sd =
     \<lparr>process = sd, request_cookie = None,
      splitCookiesString = single_split, parse = map single_pair\<rparr>"

text \<open>A configuration, two responses and a signed-in state for concrete runs.\<close>

definition example_config :: config where
  "example_config =
     \<lparr>url = ''https://api.example.com'',
      csrf_endpoint = ''/sanctum/csrf-cookie'',
      check_endpoint = ''/user'',
      login_endpoint = ''/login'',
      login_redirectsTo = Some ''/dashboard'',
      logout_endpoint = ''/logout'',
      logout_redirectsTo = Some ''/login''\<rparr>"

definition plain_response :: "nat \<Rightarrow> response" where
  "plain_response code = \<lparr>status = code, set_cookie = None\<rparr>"

definition token_response :: response where
  "token_response = \<lparr>status = 204, set_cookie = Some ''XSRF-TOKEN=abc123; Path=/''\<rparr>"

definition signed_in :: "string sanctum" where
  "signed_in =
     \<lparr>csrfToken = Some ''tok'', authenticated = Some True, user = Some ''alice'',
      navigations = []\<rparr>"

section \<open>Properties\<close>

lemma onResponse_keeps:
  "authenticated (onResponse e jar r s) = authenticated s"
  "user (onResponse e jar r s) = user s"
  "navigations (onResponse e jar r s) = navigations s"
  by (simp_all add: onResponse_def Let_def)

lemma check_never_throws: "\<exists>b. snd (check e ex s) = Inr (Some b)"
  by (auto simp: check_def Let_def split: prod.splits sum.splits)

lemma logout_never_throws: "\<exists>b. snd (logout e cfg ex redirectTo s) = Inr b"
  by (auto simp: logout_def Let_def split: prod.splits sum.splits)

subsection \<open>\<^verbatim>\<open>check\<close>\<close>

text \<open>
  C7. When the GET of \<^verbatim>\<open>check\<close> resolves with body \<open>b\<close>, the user is \<open>b\<close>, the flag is
  \<^verbatim>\<open>true\<close> and \<^verbatim>\<open>check\<close> returns \<^verbatim>\<open>true\<close>. When it fails, with a response the client rejects
  or with no response at all, the flag is \<^verbatim>\<open>false\<close> and \<^verbatim>\<open>check\<close> returns \<^verbatim>\<open>false\<close>; in
  both cases it returns a value and throws nothing.
\<close>

theorem check_outcome:
  fixes ex :: "'u exchange"
  shows "(reply ex = Resolved r b \<longrightarrow>
            user (fst (check e ex s)) = Some b \<and>
            authenticated (fst (check e ex s)) = Some True \<and>
            snd (check e ex s) = Inr (Some True))
       \<and> ((reply ex = NoResponse \<or> (\<exists>r'. reply ex = Rejected r')) \<longrightarrow>
            authenticated (fst (check e ex s)) = Some False \<and>
            snd (check e ex s) = Inr (Some False))"
  by (auto simp: check_def sanctumFetch_def Let_def)

theorem check_outcome_witness:
  "(user (fst (check (single_cookie_env Client)
        \<lparr>reply = Resolved (plain_response 200) ''bob'', useCookie_XSRF = None\<rparr> signed_in)) = Some ''bob''
    \<and> authenticated (fst (check (single_cookie_env Client)
        \<lparr>reply = Resolved (plain_response 200) ''bob'', useCookie_XSRF = None\<rparr> signed_in)) = Some True
    \<and> snd (check (single_cookie_env Client)
        \<lparr>reply = Resolved (plain_response 200) ''bob'', useCookie_XSRF = None\<rparr> signed_in) = Inr (Some True))
   \<and> (authenticated (fst (check (single_cookie_env Client)
        \<lparr>reply = Rejected (plain_response 500), useCookie_XSRF = None\<rparr> signed_in)) = Some False
    \<and> snd (check (single_cookie_env Client)
        \<lparr>reply = Rejected (plain_response 500), useCookie_XSRF = None\<rparr> signed_in) = Inr (Some False))"
  using check_outcome [of "\<lparr>reply = Resolved (plain_response 200) ''bob'', useCookie_XSRF = None\<rparr>"
          "plain_response 200" "''bob''" "single_cookie_env Client" signed_in]
        check_outcome [of "\<lparr>reply = Rejected (plain_response 500), useCookie_XSRF = None\<rparr>"
          "plain_response 200" "''bob''" "single_cookie_env Client" signed_in]
  by simp

subsection \<open>The 401 interceptor\<close>

text \<open>
  C5, as stated, at a concrete input. The check endpoint is \<^verbatim>\<open>/user\<close>; a request to
  \<^verbatim>\<open>https://api.example.com/admin/user\<close>, which is not the check endpoint, is answered with
  401. The hook tests \<^verbatim>\<open>request.toString().endsWith(config.check.endpoint)\<close>, returns, and
  the session stays as it was: signed in, with its user, and no navigation.
\<close>

theorem unauthorized_other_request_counterexample:
  "status (plain_response 401) = 401
   \<and> ''https://api.example.com/admin/user'' \<noteq> ''https://api.example.com/user''
   \<and> ''https://api.example.com/admin/user'' \<noteq> check_endpoint example_config
   \<and> authenticated (onResponseError example_config ''https://api.example.com/admin/user''
        (plain_response 401) signed_in) = Some True
   \<and> user (onResponseError example_config ''https://api.example.com/admin/user''
        (plain_response 401) signed_in) = Some ''alice''
   \<and> navigations (onResponseError example_config ''https://api.example.com/admin/user''
        (plain_response 401) signed_in) = []"
  by (simp add: onResponseError_def example_config_def endsWith_def plain_response_def
        signed_in_def)

text \<open>
  C5, amended. For a response with status 401 to a request whose string does not end
  with the configured check endpoint, the flag becomes \<^verbatim>\<open>false\<close>, the user becomes \<^verbatim>\<open>null\<close>,
  and \<^verbatim>\<open>navigateTo\<close> is called once with the configured logout redirect.
\<close>

theorem unauthorized_clears_session:
  assumes "status r = 401"
      and "\<not> endsWith request (check_endpoint cfg)"
  shows "authenticated (onResponseError cfg request r s) = Some False
       \<and> user (onResponseError cfg request r s) = None
       \<and> navigations (onResponseError cfg request r s)
           = navigations s @ [NavigateTo (logout_redirectsTo cfg)]"
  using assms by (simp add: onResponseError_def navigateTo_def)

theorem unauthorized_clears_session_witness:
  "status (plain_response 401) = 401
   \<and> \<not> endsWith ''https://api.example.com/posts'' (check_endpoint example_config)
   \<and> authenticated (onResponseError example_config ''https://api.example.com/posts''
        (plain_response 401) signed_in) = Some False
   \<and> user (onResponseError example_config ''https://api.example.com/posts''
        (plain_response 401) signed_in) = None
   \<and> navigations (onResponseError example_config ''https://api.example.com/posts''
        (plain_response 401) signed_in) = [NavigateTo (Some ''/login'')]"
proof -
  have st: "status (plain_response 401) = 401"
    by (simp add: plain_response_def)
  have ne: "\<not> endsWith ''https://api.example.com/posts'' (check_endpoint example_config)"
    by (simp add: endsWith_def example_config_def)
  show ?thesis
    using st ne unauthorized_clears_session [OF st ne, of signed_in]
    by (simp add: example_config_def signed_in_def)
qed

text \<open>
  C6, as stated, at a concrete input. The exemption is said to apply exactly when the
  target equals the check endpoint. The request \<^verbatim>\<open>/teams/7/user\<close> differs from the check
  endpoint \<^verbatim>\<open>/user\<close>, yet its 401 is exempted: the hook leaves the state as it is.
\<close>

theorem exemption_by_equality_counterexample:
  "status (plain_response 401) = 401
   \<and> ''/teams/7/user'' \<noteq> check_endpoint example_config
   \<and> onResponseError example_config ''/teams/7/user'' (plain_response 401) signed_in
       = signed_in"
  by (simp add: onResponseError_def example_config_def endsWith_def plain_response_def)

lemma navigateTo_changes: "navigateTo t s \<noteq> s"
proof
  assume "navigateTo t s = s"
  then have "navigations (navigateTo t s) = navigations s" by simp
  then show False by (simp add: navigateTo_def)
qed

text \<open>
  C6, amended. On a 401 the exemption applies exactly when the request's string ends with
  the configured check endpoint: then the hook changes no state and navigates nowhere.
  When the string does not end with the check endpoint, the hook clears the flag and the
  user and calls \<^verbatim>\<open>navigateTo\<close>, so the state does change.
\<close>

theorem exemption_by_suffix:
  assumes "status r = 401"
  shows "(endsWith request (check_endpoint cfg) \<longrightarrow> onResponseError cfg request r s = s)
       \<and> (\<not> endsWith request (check_endpoint cfg) \<longrightarrow>
            onResponseError cfg request r s
              = navigateTo (logout_redirectsTo cfg) (s\<lparr>authenticated := Some False, user := None\<rparr>)
            \<and> onResponseError cfg request r s \<noteq> s)"
proof (cases "endsWith request (check_endpoint cfg)")
  case True
  with assms show ?thesis by (simp add: onResponseError_def)
next
  case False
  have eq: "onResponseError cfg request r s
              = navigateTo (logout_redirectsTo cfg) (s\<lparr>authenticated := Some False, user := None\<rparr>)"
    using assms False by (simp add: onResponseError_def)
  have "navigations (navigateTo (logout_redirectsTo cfg) (s\<lparr>authenticated := Some False, user := None\<rparr>))
          \<noteq> navigations s"
    by (simp add: navigateTo_def)
  then have "navigateTo (logout_redirectsTo cfg) (s\<lparr>authenticated := Some False, user := None\<rparr>) \<noteq> s"
    by auto
  with eq False show ?thesis by simp
qed

theorem exemption_by_suffix_witness:
  "status (plain_response 401) = 401
   \<and> endsWith ''https://api.example.com/user'' (check_endpoint example_config)
   \<and> onResponseError example_config ''https://api.example.com/user'' (plain_response 401) signed_in
       = signed_in
   \<and> \<not> endsWith ''https://api.example.com/posts?page=2'' (check_endpoint example_config)
   \<and> onResponseError example_config ''https://api.example.com/posts?page=2'' (plain_response 401) signed_in
       = \<lparr>csrfToken = Some ''tok'', authenticated = Some False, user = None,
          navigations = [NavigateTo (Some ''/login'')]\<rparr>"
proof -
  have st: "status (plain_response 401) = 401"
    by (simp add: plain_response_def)
  have yes: "endsWith ''https://api.example.com/user'' (check_endpoint example_config)"
    by (simp add: endsWith_def example_config_def)
  have no: "\<not> endsWith ''https://api.example.com/posts?page=2'' (check_endpoint example_config)"
    by (simp add: endsWith_def example_config_def)
  have a: "onResponseError example_config ''https://api.example.com/user'' (plain_response 401) signed_in
             = signed_in"
    using exemption_by_suffix [OF st, where request = "''https://api.example.com/user''"
            and cfg = example_config and s = signed_in] yes
    by blast
  have b: "onResponseError example_config ''https://api.example.com/posts?page=2'' (plain_response 401) signed_in
             = navigateTo (logout_redirectsTo example_config)
                 (signed_in\<lparr>authenticated := Some False, user := None\<rparr>)"
    using exemption_by_suffix [OF st, where request = "''https://api.example.com/posts?page=2''"
            and cfg = example_config and s = signed_in] no
    by blast
  have c: "navigateTo (logout_redirectsTo example_config)
             (signed_in\<lparr>authenticated := Some False, user := None\<rparr>)
           = \<lparr>csrfToken = Some ''tok'', authenticated = Some False, user = None,
              navigations = [NavigateTo (Some ''/login'')]\<rparr>"
    by (simp add: navigateTo_def signed_in_def example_config_def)
  from st yes a no b c show ?thesis by simp
qed

subsection \<open>The CSRF token\<close>





text \<open>
  C10. On the server, after either response hook has run on a response, the shared token
  is the value of the first cookie named \<^verbatim>\<open>XSRF-TOKEN\<close> that the library parses out of the
  response's \<^verbatim>\<open>set-cookie\<close> header (the empty string when the header is missing). So when
  no parsed cookie has that name, the token is absent after the hook, whatever it was
  before.
\<close>

theorem server_hook_overwrites_token:
  assumes "process e = Server"
  shows "csrfToken (onResponse e jar r s)
           = map_option cookie_value (find (\<lambda>c. cookie_name c = ''XSRF-TOKEN'')
               (parse e (splitCookiesString e (case set_cookie r of None \<Rightarrow> [] | Some h \<Rightarrow> h))))
       \<and> csrfToken (fetch_onResponse e jar r s)
           = map_option cookie_value (find (\<lambda>c. cookie_name c = ''XSRF-TOKEN'')
               (parse e (splitCookiesString e (case set_cookie r of None \<Rightarrow> [] | Some h \<Rightarrow> h))))
       \<and> ((\<forall>c \<in> set (parse e (splitCookiesString e (case set_cookie r of None \<Rightarrow> [] | Some h \<Rightarrow> h))).
              cookie_name c \<noteq> ''XSRF-TOKEN'') \<longrightarrow>
            csrfToken (onResponse e jar r s) = None
            \<and> csrfToken (fetch_onResponse e jar r s) = None)"
  using assms
  by (auto simp: onResponse_def fetch_onResponse_def process_server_def process_client_def
        xsrf_from_header_def Let_def find_None_iff)

theorem server_hook_overwrites_token_witness:
  "csrfToken signed_in = Some ''tok''
   \<and> csrfToken (onResponse (single_cookie_env Server) (Some ''tok'')
        \<lparr>status = 200, set_cookie = Some ''laravel_session=xyz; Path=/''\<rparr> signed_in) = None
   \<and> csrfToken (fetch_onResponse (single_cookie_env Server) (Some ''tok'')
        \<lparr>status = 200, set_cookie = Some ''laravel_session=xyz; Path=/''\<rparr> signed_in) = None"
proof -
  have srv: "process (single_cookie_env Server) = Server"
    by (simp add: single_cookie_env_def)
  have none: "\<forall>c \<in> set (parse (single_cookie_env Server)
         (splitCookiesString (single_cookie_env Server)
           (case set_cookie \<lparr>status = 200, set_cookie = Some ''laravel_session=xyz; Path=/''\<rparr>
              of None \<Rightarrow> [] | Some h \<Rightarrow> h))). cookie_name c \<noteq> ''XSRF-TOKEN''"
    by (simp add: single_cookie_env_def single_split_def single_pair_def)
  have old: "csrfToken signed_in = Some ''tok''"
    by (simp add: signed_in_def)
  from server_hook_overwrites_token [OF srv, where jar = "Some ''tok''"
        and r = "\<lparr>status = 200, set_cookie = Some ''laravel_session=xyz; Path=/''\<rparr>"
        and s = signed_in] none
  have "csrfToken (onResponse (single_cookie_env Server) (Some ''tok'')
          \<lparr>status = 200, set_cookie = Some ''laravel_session=xyz; Path=/''\<rparr> signed_in) = None
      \<and> csrfToken (fetch_onResponse (single_cookie_env Server) (Some ''tok'')
          \<lparr>status = 200, set_cookie = Some ''laravel_session=xyz; Path=/''\<rparr> signed_in) = None"
    by blast
  with old show ?thesis by simp
qed

lemma refreshCsrfToken_reads_cookie:
  "reply ex = Resolved r b \<Longrightarrow>
   csrfToken (fst (refreshCsrfToken e ex s)) = useCookie_XSRF ex
   \<and> snd (refreshCsrfToken e ex s) = Inr (useCookie_XSRF ex)"
  by (simp add: refreshCsrfToken_def sanctumFetch_def Let_def)

text \<open>
  C8 at a server-side run. The inbound request carries no \<^verbatim>\<open>XSRF-TOKEN\<close> cookie, so
  \<^verbatim>\<open>useCookie("XSRF-TOKEN").value\<close> is absent; the CSRF endpoint answers with
  \<^verbatim>\<open>Set-Cookie: XSRF-TOKEN=abc123; Path=/\<close>. The response hook alone leaves the token at
  \<^verbatim>\<open>abc123\<close>; \<^verbatim>\<open>refreshCsrfToken\<close> then assigns the value of \<^verbatim>\<open>useCookie\<close> over it, and ends
  with no token and returns none.
\<close>

theorem refresh_on_server_drops_new_token:
  "csrfToken (onResponse (single_cookie_env Server) None token_response
       (initial_state :: string sanctum)) = Some ''abc123''
   \<and> refreshCsrfToken (single_cookie_env Server)
        \<lparr>reply = Resolved token_response ''ok'', useCookie_XSRF = None\<rparr> initial_state
     = (initial_state, Inr None)"
  by (simp add: refreshCsrfToken_def sanctumFetch_def onResponse_def xsrf_from_header_def
        single_cookie_env_def single_split_def single_pair_def token_response_def
        process_server_def process_client_def initial_state_def Let_def)

subsection \<open>\<^verbatim>\<open>login\<close> and \<^verbatim>\<open>logout\<close>\<close>

lemma login_after_post:
  assumes "reply ex_csrf = Resolved r1 b1" and "reply ex_login = Resolved r2 b2"
  shows "snd (login e cfg ex_csrf ex_login ex_check data redirectTo s) = Inr True"
  using assms
  by (simp add: login_def refreshCsrfToken_def sanctumFetch_def check_def Let_def
        split: reply.splits)

text \<open>
  C1 at a concrete run: the CSRF GET and the login POST succeed, the GET of \<^verbatim>\<open>check\<close> is
  answered with 500, and \<^verbatim>\<open>redirectTo\<close> is \<^verbatim>\<open>/home\<close>. \<^verbatim>\<open>check\<close> sets the flag to \<^verbatim>\<open>false\<close>
  and returns \<^verbatim>\<open>false\<close>; \<^verbatim>\<open>login\<close> does not look at that result, pushes \<^verbatim>\<open>/home\<close> and
  returns \<^verbatim>\<open>true\<close>.
\<close>

theorem login_redirects_after_failed_check:
  "login (single_cookie_env Client) example_config
      \<lparr>reply = Resolved token_response ''ok'', useCookie_XSRF = Some ''abc123''\<rparr>
      \<lparr>reply = Resolved (plain_response 204) ''ok'', useCookie_XSRF = Some ''abc123''\<rparr>
      \<lparr>reply = Rejected (plain_response 500), useCookie_XSRF = Some ''abc123''\<rparr>
      [(''email'', ''a@b.com''), (''password'', ''x'')] (Some ''/home'') initial_state
   = (\<lparr>csrfToken = Some ''abc123'', authenticated = Some False, user = None,
       navigations = [RouterPush (Some ''/home'')]\<rparr>, Inr True)"
  by (simp add: login_def refreshCsrfToken_def check_def sanctumFetch_def onResponse_def
        single_cookie_env_def process_server_def process_client_def initial_state_def
        example_config_def truthy_def js_or_def nullish_def push_def Let_def)

text \<open>
  C2 at concrete runs from a signed-in state with user \<^verbatim>\<open>alice\<close>: after a \<^verbatim>\<open>logout\<close> whose
  POST succeeds, and after a \<^verbatim>\<open>check\<close> whose GET is answered with 401, the flag is
  \<^verbatim>\<open>false\<close> and the user is still \<^verbatim>\<open>alice\<close>.
\<close>

theorem logout_keeps_stale_user:
  "authenticated (fst (logout (single_cookie_env Client) example_config
      \<lparr>reply = Resolved (plain_response 204) ''ok'', useCookie_XSRF = Some ''tok''\<rparr>
      None signed_in)) = Some False
   \<and> user (fst (logout (single_cookie_env Client) example_config
      \<lparr>reply = Resolved (plain_response 204) ''ok'', useCookie_XSRF = Some ''tok''\<rparr>
      None signed_in)) = Some ''alice''
   \<and> authenticated (fst (check (single_cookie_env Client)
      \<lparr>reply = Rejected (plain_response 401), useCookie_XSRF = Some ''tok''\<rparr> signed_in))
       = Some False
   \<and> user (fst (check (single_cookie_env Client)
      \<lparr>reply = Rejected (plain_response 401), useCookie_XSRF = Some ''tok''\<rparr> signed_in))
       = Some ''alice''"
  by (simp add: logout_def check_def sanctumFetch_def onResponse_def
        single_cookie_env_def process_server_def process_client_def signed_in_def
        example_config_def truthy_def nullish_def push_def Let_def)

text \<open>
  C3 at the failing request: when the CSRF GET that \<^verbatim>\<open>login\<close> issues first fails, with no
  response or with a response the client rejects, \<^verbatim>\<open>login\<close> does not return a boolean: the
  error leaves it. (\<open>check_never_throws\<close> and \<open>logout_never_throws\<close> above are the other
  two operations.)
\<close>

theorem login_rejects_when_csrf_request_fails:
  "snd (login e cfg \<lparr>reply = NoResponse, useCookie_XSRF = jar\<rparr>
          ex_login ex_check data redirectTo s) = Inl FetchError
   \<and> snd (login e cfg \<lparr>reply = Rejected r, useCookie_XSRF = jar\<rparr>
          ex_login ex_check data redirectTo s) = Inl FetchError"
  by (simp add: login_def refreshCsrfToken_def sanctumFetch_def)

text \<open>
  C4 at concrete runs: \<^verbatim>\<open>logout("/goodbye")\<close> with a POST that succeeds. With the default
  \<^verbatim>\<open>/login\<close> configured the router is pushed to \<^verbatim>\<open>/login\<close>, not to \<^verbatim>\<open>/goodbye\<close>; with no
  default configured it is pushed to \<^verbatim>\<open>undefined\<close>.
\<close>

theorem logout_pushes_default_not_redirectTo:
  "navigations (fst (logout (single_cookie_env Client) example_config
      \<lparr>reply = Resolved (plain_response 204) ''ok'', useCookie_XSRF = Some ''tok''\<rparr>
      (Some ''/goodbye'') signed_in)) = [RouterPush (Some ''/login'')]
   \<and> navigations (fst (logout (single_cookie_env Client)
      (example_config\<lparr>logout_redirectsTo := None\<rparr>)
      \<lparr>reply = Resolved (plain_response 204) ''ok'', useCookie_XSRF = Some ''tok''\<rparr>
      (Some ''/goodbye'') signed_in)) = [RouterPush None]"
  by (simp add: logout_def sanctumFetch_def onResponse_def
        single_cookie_env_def process_server_def process_client_def signed_in_def
        example_config_def truthy_def nullish_def push_def Let_def)

end
